theory Spec2Isabelle
  imports Complex_Main
begin

section \<open>Data model of mesh_generator.py\<close>

text \<open>
  The script works on numpy arrays of floating-point numbers. A float is modelled by
  its value: not-a-number, an infinity, or a rational. Every float64 is one of these,
  so a statement about all values of \<open>f64\<close> covers every array element.
\<close>

datatype f64 = NaN | PosInf | NegInf | Finite rat

text \<open>
  A numpy array: its shape and its elements in row-major order. Elementwise operations
  keep the shape and act on the buffer.
\<close>

record ndarray =
  shape :: "nat list"
  data :: "f64 list"

text \<open>What \<open>nib.load\<close> returns, as far as the script reads it:
  \<open>img.get_fdata()\<close> and \<open>img.header.get_zooms()\<close>.\<close>

record nifti_image =
  get_fdata :: ndarray
  get_zooms :: "f64 list"

type_synonym vec3 = "f64 \<times> f64 \<times> f64"

type_synonym face = "int \<times> int \<times> int"

text \<open>
  Exceptions. \<open>FileNotFoundError\<close> is raised by the script itself (with its message),
  \<open>UnboundLocalError\<close> by Python when a local variable is read before it is bound
  (with the variable's name), \<open>OverflowError\<close> when an integer is too large to become
  a float, and \<open>LibraryError\<close> stands for any exception (a subclass of
  \<open>Exception\<close>) raised inside nibabel, medpy, scikit-image, pyvista, vtk or os, with
  its class name and text.
\<close>

datatype exn =
    FileNotFoundError string
  | UnboundLocalError string
  | OverflowError
  | LibraryError string string

text \<open>The parameters the script sets on \<open>vtkWindowedSincPolyDataFilter\<close>.\<close>

record smoother_params =
  NumberOfIterations :: nat
  PassBand :: rat
  NormalizeCoordinates :: bool
  NonManifoldSmoothing :: bool
  FeatureEdgeSmoothing :: bool
  BoundarySmoothing :: bool

text \<open>
  What the script prints and does to the outside world, in order. Each \<open>Print\<close>
  constructor is one \<open>print\<close> call of the source; numbers and exceptions are the
  values interpolated into the message.
\<close>

datatype 'm event =
    PrintLoaded
  | PrintFiltered
  | PrintVertsGenerated nat
  | PrintFacesGenerated nat
  | PrintMeshGenerated
  | PrintCreatingMesh
  | PrintVertsBefore nat
  | PrintFacesBefore nat
  | PrintVertsAfter nat
  | PrintFacesAfter nat
  | PrintSmoothingError exn
  | PrintSmoothed
  | PlotterShown 'm
  | MadeDirs string
  | MeshSaved 'm string
  | PrintSaved string
  | PrintSaveError exn
  | PrintProcessError exn

text \<open>
  The libraries the script imports are not part of the repository. Their functions are
  parameters of the model: a call either returns a value or raises an exception, and
  nothing else is assumed about it. The type \<open>'m\<close> is pyvista's \<open>PolyData\<close>, which the
  script only passes around and asks for \<open>n_points\<close> and \<open>n_cells\<close>.
  \<open>pv_clean\<close> is called with \<open>inplace=True\<close>: it gives the object as the call
  leaves it, and the exception if one was raised.
\<close>

record 'm library =
  os_path_exists :: "string \<Rightarrow> bool"
  os_path_dirname :: "string \<Rightarrow> string"
  os_makedirs :: "string \<Rightarrow> exn option"
  nib_load :: "string \<Rightarrow> exn + nifti_image"
  medpy_anisotropic_diffusion ::
    "ndarray \<Rightarrow> nat \<Rightarrow> rat \<Rightarrow> rat \<Rightarrow> f64 list \<Rightarrow> nat \<Rightarrow> exn + ndarray"
  measure_marching_cubes ::
    "ndarray \<Rightarrow> rat \<Rightarrow> f64 list \<Rightarrow> nat
       \<Rightarrow> exn + (vec3 list \<times> face list \<times> vec3 list \<times> f64 list)"
  pv_PolyData :: "vec3 list \<Rightarrow> int list \<Rightarrow> exn + 'm"
  pv_clean :: "'m \<Rightarrow> 'm \<times> exn option"
  pv_connectivity :: "string \<Rightarrow> 'm \<Rightarrow> exn + 'm"
  vtk_windowed_sinc :: "smoother_params \<Rightarrow> 'm \<Rightarrow> exn + 'm"
  n_points :: "'m \<Rightarrow> nat"
  n_cells :: "'m \<Rightarrow> nat"
  plotter_show :: "'m \<Rightarrow> exn option"
  mesh_save :: "'m \<Rightarrow> string \<Rightarrow> exn option"

section \<open>load_segmentation\<close>

text \<open>
  \<open>segmentation_data\<close> is an array of float64 and \<open>target_label\<close> a Python integer.
  Before it compares, numpy converts the integer to float64 the way Python's
  \<open>float(n)\<close> does: the magnitude is rounded to 53 significant bits, to the nearest
  value and on a tie to the even one, and a result beyond the largest float64
  (\<open>2^1024\<close> or more after rounding) raises OverflowError.
\<close>

fun bit_length :: "nat \<Rightarrow> nat" where
  "bit_length n = (if n = 0 then 0 else Suc (bit_length (n div 2)))"

declare bit_length.simps [simp del]

definition round_to_53_bits :: "nat \<Rightarrow> nat" where
  "round_to_53_bits n =
     (if bit_length n \<le> 53 then n
      else
        (let extra = bit_length n - 53;
             q = n div 2 ^ extra;
             r = n mod 2 ^ extra;
             half = 2 ^ (extra - 1)
         in (if half < r \<or> (r = half \<and> odd q) then q + 1 else q) * 2 ^ extra))"

definition int_to_float64 :: "int \<Rightarrow> exn + f64" where
  "int_to_float64 n =
     (let m = round_to_53_bits (nat \<bar>n\<bar>)
      in if 2 ^ 1024 \<le> m then Inl OverflowError
         else Inr (Finite (if n < 0 then - of_nat m else of_nat m)))"

text \<open>
  \<open>==\<close> on two floats: NaN equals nothing, not even itself; any other value equals
  itself only.
\<close>

definition np_equal :: "f64 \<Rightarrow> f64 \<Rightarrow> bool" where
  "np_equal v w \<longleftrightarrow> v \<noteq> NaN \<and> w \<noteq> NaN \<and> v = w"

text \<open>\<open>.astype(np.float32)\<close> on a boolean: True is 1.0, False is 0.0.\<close>

definition astype_float32 :: "bool \<Rightarrow> f64" where
  "astype_float32 b = (if b then Finite 1 else Finite 0)"

text \<open>
  \<open>(segmentation_data == target_label).astype(np.float32)\<close> with the label already
  converted: elementwise, same shape.
\<close>

definition binarize :: "ndarray \<Rightarrow> f64 \<Rightarrow> ndarray" where
  "binarize a label =
     \<lparr>shape = shape a, data = map (\<lambda>v. astype_float32 (np_equal v label)) (data a)\<rparr>"

definition load_segmentation ::
  "'m library \<Rightarrow> string \<Rightarrow> int \<Rightarrow> exn + (ndarray \<times> f64 list)" where
  "load_segmentation lib nifti_path target_label =
     (if \<not> os_path_exists lib nifti_path
      then Inl (FileNotFoundError (''Archivo no encontrado: '' @ nifti_path))
      else case nib_load lib nifti_path of
             Inl e \<Rightarrow> Inl e
           | Inr img \<Rightarrow>
               (let segmentation_data = get_fdata img;
                    spacing = get_zooms img
                in case int_to_float64 target_label of
                     Inl e \<Rightarrow> Inl e
                   | Inr label \<Rightarrow> Inr (binarize segmentation_data label, spacing)))"

section \<open>generate_mesh\<close>

definition generate_mesh ::
  "'m library \<Rightarrow> ndarray \<Rightarrow> f64 list \<Rightarrow> rat \<Rightarrow> 'm event list
     \<Rightarrow> (exn + (vec3 list \<times> face list)) \<times> 'm event list" where
  "generate_mesh lib segmentation_data spacing level out =
     (case measure_marching_cubes lib segmentation_data level spacing 1 of
        Inl e \<Rightarrow> (Inl e, out)
      | Inr (verts, faces, normals, vals) \<Rightarrow>
          (Inr (verts, faces),
           out @ [PrintVertsGenerated (length verts), PrintFacesGenerated (length faces)]))"

section \<open>create_smooth_mesh\<close>

text \<open>
  \<open>np.hstack([np.full((n_faces, 1), 3), faces]).astype(np.int64).ravel()\<close>: every
  triangle is prefixed by its vertex count 3, and the rows are laid end to end.
\<close>

definition faces_formatted :: "face list \<Rightarrow> int list" where
  "faces_formatted faces = concat (map (\<lambda>(a, b, c). [3, a, b, c]) faces)"

definition smoother_settings :: smoother_params where
  "smoother_settings =
     \<lparr>NumberOfIterations = 30, PassBand = 1 / 10, NormalizeCoordinates = True,
      NonManifoldSmoothing = True, FeatureEdgeSmoothing = True, BoundarySmoothing = True\<rparr>"

text \<open>
  The \<open>except Exception as e\<close> block: print the error and \<open>return mesh\<close>. The
  second argument is the binding of the local variable \<open>mesh\<close> when the exception
  was raised; when the variable is still unbound, \<open>return mesh\<close> itself raises.
\<close>

definition smoothing_handler ::
  "exn \<Rightarrow> 'm option \<Rightarrow> 'm event list \<Rightarrow> (exn + 'm) \<times> 'm event list" where
  "smoothing_handler e mesh out =
     (case mesh of
        None \<Rightarrow> (Inl (UnboundLocalError ''mesh''), out @ [PrintSmoothingError e])
      | Some m \<Rightarrow> (Inr m, out @ [PrintSmoothingError e]))"

definition create_smooth_mesh ::
  "'m library \<Rightarrow> vec3 list \<Rightarrow> face list \<Rightarrow> 'm event list \<Rightarrow> (exn + 'm) \<times> 'm event list" where
  "create_smooth_mesh lib verts faces out =
     (let out1 = out @ [PrintCreatingMesh] in
      case pv_PolyData lib verts (faces_formatted faces) of
        Inl e \<Rightarrow> smoothing_handler e None out1
      | Inr mesh0 \<Rightarrow>
          (case pv_clean lib mesh0 of
             (mesh1, Some e) \<Rightarrow> smoothing_handler e (Some mesh1) out1
           | (mesh1, None) \<Rightarrow>
               (case pv_connectivity lib ''largest'' mesh1 of
                  Inl e \<Rightarrow> smoothing_handler e (Some mesh1) out1
                | Inr mesh \<Rightarrow>
                    (let out2 = out1 @ [PrintVertsBefore (n_points lib mesh),
                                        PrintFacesBefore (n_cells lib mesh)] in
                     case vtk_windowed_sinc lib smoother_settings mesh of
                       Inl e \<Rightarrow> smoothing_handler e (Some mesh) out2
                     | Inr smooth_mesh \<Rightarrow>
                         (Inr smooth_mesh,
                          out2 @ [PrintVertsAfter (n_points lib smooth_mesh),
                                  PrintFacesAfter (n_cells lib smooth_mesh)])))))"

section \<open>visualize_mesh_advanced and save_mesh\<close>

text \<open>
  \<open>visualize_mesh_advanced\<close> only drives the plotter; the whole of it is the library
  call \<open>plotter_show\<close>. The result is the exception that leaves the function, if any.
\<close>

definition visualize_mesh_advanced ::
  "'m library \<Rightarrow> 'm \<Rightarrow> 'm event list \<Rightarrow> exn option \<times> 'm event list" where
  "visualize_mesh_advanced lib mesh out =
     (case plotter_show lib mesh of
        Some e \<Rightarrow> (Some e, out)
      | None \<Rightarrow> (None, out @ [PlotterShown mesh]))"

definition save_mesh ::
  "'m library \<Rightarrow> 'm \<Rightarrow> string \<Rightarrow> 'm event list \<Rightarrow> exn option \<times> 'm event list" where
  "save_mesh lib mesh output_path out =
     (let output_dir = os_path_dirname lib output_path in
      case (if \<not> os_path_exists lib output_dir
            then (case os_makedirs lib output_dir of
                    Some e \<Rightarrow> Inl e
                  | None \<Rightarrow> Inr (out @ [MadeDirs output_dir]))
            else Inr out) of
        Inl e \<Rightarrow> (Some e, out)
      | Inr out1 \<Rightarrow>
          (case mesh_save lib mesh output_path of
             Some e \<Rightarrow> (None, out1 @ [PrintSaveError e])
           | None \<Rightarrow> (None, out1 @ [MeshSaved mesh output_path, PrintSaved output_path])))"

section \<open>The script's main block\<close>

definition nifti_path :: string where
  "nifti_path = ''time_01.nii.gz''"

definition output_stl_path :: string where
  "output_stl_path = ''mesh_output/mesh.stl''"

text \<open>The body of the \<open>try\<close> block: the exception that leaves it, if any, and the output.\<close>

definition main_try :: "'m library \<Rightarrow> 'm event list \<Rightarrow> exn option \<times> 'm event list" where
  "main_try lib out =
     (case load_segmentation lib nifti_path 1 of
        Inl e \<Rightarrow> (Some e, out)
      | Inr (segmentation_data, spacing) \<Rightarrow>
          (let out1 = out @ [PrintLoaded] in
           case medpy_anisotropic_diffusion lib segmentation_data 5 50 (1 / 10) spacing 1 of
             Inl e \<Rightarrow> (Some e, out1)
           | Inr segmentation_data_filtered \<Rightarrow>
               (let out2 = out1 @ [PrintFiltered] in
                case generate_mesh lib segmentation_data_filtered spacing (1 / 2) out2 of
                  (Inl e, out3) \<Rightarrow> (Some e, out3)
                | (Inr (verts, faces), out3) \<Rightarrow>
                    (let out4 = out3 @ [PrintMeshGenerated] in
                     case create_smooth_mesh lib verts faces out4 of
                       (Inl e, out5) \<Rightarrow> (Some e, out5)
                     | (Inr smooth_mesh, out5) \<Rightarrow>
                         (let out6 = out5 @ [PrintSmoothed] in
                          case visualize_mesh_advanced lib smooth_mesh out6 of
                            (Some e, out7) \<Rightarrow> (Some e, out7)
                          | (None, out7) \<Rightarrow>
                              save_mesh lib smooth_mesh output_stl_path out7)))))"

text \<open>\<open>except Exception as e: print(...)\<close>: the script always ends normally.\<close>

definition main :: "'m library \<Rightarrow> 'm event list \<Rightarrow> 'm event list" where
  "main lib out =
     (case main_try lib out of
        (Some e, out1) \<Rightarrow> out1 @ [PrintProcessError e]
      | (None, out1) \<Rightarrow> out1)"

section \<open>A library for concrete runs\<close>

text \<open>
  The concrete runs below need some library. In this one a mesh is its point list and
  its face array, every call succeeds, and cleaning, extraction and smoothing return
  their input. Variants of it make one call raise.
\<close>

record polydata =
  points :: "vec3 list"
  cells :: "int list"

definition stub_image :: nifti_image where
  "stub_image =
     \<lparr>get_fdata = \<lparr>shape = [2, 1, 2], data = [Finite 0, Finite 1, Finite 2, NaN]\<rparr>,
      get_zooms = [Finite 1, Finite 1, Finite 1]\<rparr>"

definition stub_origin :: vec3 where
  "stub_origin = (Finite 0, Finite 0, Finite 0)"

definition stub_library :: "polydata library" where
  "stub_library =
     \<lparr>os_path_exists = (\<lambda>p. p = ''time_01.nii.gz''),
      os_path_dirname = (\<lambda>p. rev (drop 1 (dropWhile (\<lambda>c. c \<noteq> CHR ''/'') (rev p)))),
      os_makedirs = (\<lambda>d. None),
      nib_load = (\<lambda>p. Inr stub_image),
      medpy_anisotropic_diffusion = (\<lambda>img niter kappa gamma voxelspacing opt. Inr img),
      measure_marching_cubes =
        (\<lambda>volume level spacing step_size.
           Inr ([stub_origin, stub_origin, stub_origin], [(0, 1, 2)],
                [stub_origin, stub_origin, stub_origin], [Finite 1, Finite 1, Finite 1])),
      pv_PolyData = (\<lambda>vs fs. Inr \<lparr>points = vs, cells = fs\<rparr>),
      pv_clean = (\<lambda>m. (m, None)),
      pv_connectivity = (\<lambda>mode m. Inr m),
      vtk_windowed_sinc = (\<lambda>ps m. Inr m),
      n_points = (\<lambda>m. length (points m)),
      n_cells = (\<lambda>m. length (cells m) div 4),
      plotter_show = (\<lambda>m. None),
      mesh_save = (\<lambda>m p. None)\<rparr>"

text \<open>An image with a voxel of value \<open>2^53\<close>, and the library that loads it.\<close>

definition wide_image :: nifti_image where
  "wide_image =
     \<lparr>get_fdata = \<lparr>shape = [2, 1, 1], data = [Finite 9007199254740992, Finite 1]\<rparr>,
      get_zooms = [Finite 1, Finite 1, Finite 1]\<rparr>"

definition stub_wide :: "polydata library" where
  "stub_wide = stub_library\<lparr>nib_load := (\<lambda>p. Inr wide_image)\<rparr>"

definition topology_failure :: exn where
  "topology_failure = LibraryError ''TopologyFailure'' ''degenerate neighbor set''"

definition stub_smoothing_fails :: "polydata library" where
  "stub_smoothing_fails = stub_library\<lparr>vtk_windowed_sinc := (\<lambda>ps m. Inl topology_failure)\<rparr>"

definition stub_no_mesh :: "polydata library" where
  "stub_no_mesh =
     stub_library\<lparr>pv_PolyData := (\<lambda>vs fs. Inl (LibraryError ''ValueError'' ''empty mesh''))\<rparr>"

section \<open>SurfaceSmoother, as the spec describes it\<close>

text \<open>
  Modelled from the spec: the error kinds of section 7 that the components below
  signal. The repository defines no exception class of its own.
\<close>

datatype pipeline_error = InvalidParameter rat | EmptyMeshError | TopologyFailure nat

text \<open>
  Modelled from the spec: the VertexNormalSoup, CleanMesh and SmoothedMesh of section 3
  (one record: vertex positions, triangles as triples of vertex indices, and the
  parallel sequence of normals) and the parameters of SurfaceSmoother (section 4.4).
  The script has no smoother of its own: it calls vtk's windowed-sinc filter, which is
  not under src/.
\<close>

type_synonym point = "rat \<times> rat \<times> rat"

type_synonym triangle = "nat \<times> nat \<times> nat"

record surface_mesh =
  mesh_vertices :: "point list"
  mesh_triangles :: "triangle list"
  mesh_normals :: "point list"

record smoothing_params =
  smoothing_iterations :: nat
  pass_band :: rat
  smooth_non_manifold_edges :: bool
  smooth_feature_edges :: bool
  smooth_boundary_edges :: bool

text \<open>
  Modelled from the spec: the topological neighbours of a vertex are the other corners
  of the triangles it belongs to. An edge used by one triangle is a boundary edge, one
  used by more than two is non-manifold; which edges are sharp is the parameter
  \<open>sharp\<close>, since the spec gives no criterion. A vertex incident to such an edge is
  excluded from movement when the flag of that kind is off.
\<close>

fun corners :: "triangle \<Rightarrow> nat list" where
  "corners (a, b, c) = [a, b, c]"

definition edge :: "nat \<Rightarrow> nat \<Rightarrow> nat \<times> nat" where
  "edge a b = (min a b, max a b)"

fun tri_edges :: "triangle \<Rightarrow> (nat \<times> nat) list" where
  "tri_edges (a, b, c) = [edge a b, edge b c, edge a c]"

definition topological_neighbours :: "triangle list \<Rightarrow> nat \<Rightarrow> nat list" where
  "topological_neighbours ts i =
     remdups (filter (\<lambda>j. j \<noteq> i) (concat (map corners (filter (\<lambda>t. i \<in> set (corners t)) ts))))"

definition edge_use :: "triangle list \<Rightarrow> nat \<times> nat \<Rightarrow> nat" where
  "edge_use ts e = length (filter (\<lambda>t. e \<in> set (tri_edges t)) ts)"

definition incident_edges :: "triangle list \<Rightarrow> nat \<Rightarrow> (nat \<times> nat) list" where
  "incident_edges ts i = map (edge i) (topological_neighbours ts i)"

definition excluded ::
  "(surface_mesh \<Rightarrow> nat \<times> nat \<Rightarrow> bool) \<Rightarrow> smoothing_params \<Rightarrow> surface_mesh \<Rightarrow> nat \<Rightarrow> bool" where
  "excluded sharp ps m i =
     list_ex (\<lambda>e.
         (\<not> smooth_boundary_edges ps \<and> edge_use (mesh_triangles m) e = 1)
       \<or> (\<not> smooth_non_manifold_edges ps \<and> 2 < edge_use (mesh_triangles m) e)
       \<or> (\<not> smooth_feature_edges ps \<and> sharp m e))
       (incident_edges (mesh_triangles m) i)"

text \<open>
  Modelled from the spec: one pass "moves every vertex toward the centroid of its
  topological neighbors" by a factor. A vertex with no neighbour, or with a neighbour
  that is no vertex of the mesh, has no valid neighbour set: the pass fails with
  TopologyFailure at that vertex.
\<close>

definition centroid :: "point list \<Rightarrow> point" where
  "centroid qs =
     (let n = of_nat (length qs)
      in (sum_list (map fst qs) / n,
          sum_list (map (fst \<circ> snd) qs) / n,
          sum_list (map (snd \<circ> snd) qs) / n))"

definition toward :: "rat \<Rightarrow> point \<Rightarrow> point \<Rightarrow> point" where
  "toward f p c =
     (case (p, c) of ((x, y, z), (cx, cy, cz)) \<Rightarrow>
        (x + f * (cx - x), y + f * (cy - y), z + f * (cz - z)))"

definition move_vertex ::
  "rat \<Rightarrow> triangle list \<Rightarrow> (nat \<Rightarrow> bool) \<Rightarrow> point list \<Rightarrow> nat \<Rightarrow> pipeline_error + point" where
  "move_vertex f ts fixed pts i =
     (let ns = topological_neighbours ts i in
      if ns = [] \<or> list_ex (\<lambda>j. length pts \<le> j) ns then Inl (TopologyFailure i)
      else if fixed i then Inr (pts ! i)
      else Inr (toward f (pts ! i) (centroid (map (\<lambda>j. pts ! j) ns))))"

fun move_all ::
  "rat \<Rightarrow> triangle list \<Rightarrow> (nat \<Rightarrow> bool) \<Rightarrow> point list \<Rightarrow> nat list
     \<Rightarrow> pipeline_error + point list" where
  "move_all f ts fixed pts [] = Inr []"
| "move_all f ts fixed pts (i # rest) =
     (case move_vertex f ts fixed pts i of
        Inl e \<Rightarrow> Inl e
      | Inr q \<Rightarrow>
          (case move_all f ts fixed pts rest of
             Inl e \<Rightarrow> Inl e
           | Inr qs \<Rightarrow> Inr (q # qs)))"

definition smoothing_pass ::
  "rat \<Rightarrow> triangle list \<Rightarrow> (nat \<Rightarrow> bool) \<Rightarrow> point list \<Rightarrow> pipeline_error + point list" where
  "smoothing_pass f ts fixed pts = move_all f ts fixed pts [0..<length pts]"

text \<open>
  Modelled from the spec: each iteration is a pass with the positive factor and then a
  pass with the negative factor.
\<close>

fun smoothing_loop ::
  "nat \<Rightarrow> rat \<Rightarrow> rat \<Rightarrow> triangle list \<Rightarrow> (nat \<Rightarrow> bool) \<Rightarrow> point list
     \<Rightarrow> pipeline_error + point list" where
  "smoothing_loop 0 lam mu ts fixed pts = Inr pts"
| "smoothing_loop (Suc n) lam mu ts fixed pts =
     (case smoothing_pass lam ts fixed pts of
        Inl e \<Rightarrow> Inl e
      | Inr pts1 \<Rightarrow>
          (case smoothing_pass mu ts fixed pts1 of
             Inl e \<Rightarrow> Inl e
           | Inr pts2 \<Rightarrow> smoothing_loop n lam mu ts fixed pts2))"

text \<open>
  Modelled from the spec: "Coordinate system is normalized internally ..., then
  denormalized on output": positions are moved to the centre of the bounding box and
  divided by its largest side.
\<close>

definition extent :: "rat list \<Rightarrow> rat \<times> rat" where
  "extent xs = (case xs of [] \<Rightarrow> (0, 0) | x # rest \<Rightarrow> (fold min rest x, fold max rest x))"

definition frame :: "point list \<Rightarrow> point \<times> rat" where
  "frame pts =
     (let (x0, x1) = extent (map fst pts);
          (y0, y1) = extent (map (fst \<circ> snd) pts);
          (z0, z1) = extent (map (snd \<circ> snd) pts);
          w = max (x1 - x0) (max (y1 - y0) (z1 - z0))
      in (((x0 + x1) / 2, (y0 + y1) / 2, (z0 + z1) / 2), if w = 0 then 1 else w))"

definition normalize_point :: "point \<times> rat \<Rightarrow> point \<Rightarrow> point" where
  "normalize_point fr p =
     (case (fr, p) of (((cx, cy, cz), w), (x, y, z)) \<Rightarrow> ((x - cx) / w, (y - cy) / w, (z - cz) / w))"

definition denormalize_point :: "point \<times> rat \<Rightarrow> point \<Rightarrow> point" where
  "denormalize_point fr p =
     (case (fr, p) of (((cx, cy, cz), w), (x, y, z)) \<Rightarrow> (x * w + cx, y * w + cy, z * w + cz))"

text \<open>
  Modelled from the spec: SurfaceSmoother. The two factors are "chosen from pass-band";
  the spec gives no formula, so the choice is the parameter \<open>factors\<close>. On a failure
  the component "falls back to returning the unsmoothed CleanMesh unchanged and reports
  the failure as a warning": the second component of the result.
\<close>

definition SurfaceSmoother ::
  "(rat \<Rightarrow> rat \<times> rat) \<Rightarrow> (surface_mesh \<Rightarrow> nat \<times> nat \<Rightarrow> bool) \<Rightarrow> smoothing_params
     \<Rightarrow> surface_mesh \<Rightarrow> surface_mesh \<times> pipeline_error option" where
  "SurfaceSmoother factors sharp ps m =
     (let (lam, mu) = factors (pass_band ps);
          fr = frame (mesh_vertices m)
      in case smoothing_loop (smoothing_iterations ps) lam mu (mesh_triangles m)
                (excluded sharp ps m) (map (normalize_point fr) (mesh_vertices m)) of
           Inl e \<Rightarrow> (m, Some e)
         | Inr pts \<Rightarrow> (m\<lparr>mesh_vertices := map (denormalize_point fr) pts\<rparr>, None))"

section \<open>Meshes and parameters for concrete runs\<close>

definition tetrahedron :: surface_mesh where
  "tetrahedron =
     \<lparr>mesh_vertices = [(0, 0, 0), (4, 0, 0), (0, 4, 0), (0, 0, 4)],
      mesh_triangles = [(0, 1, 2), (0, 1, 3), (0, 2, 3), (1, 2, 3)],
      mesh_normals = [(-1, -1, -1), (1, 0, 0), (0, 1, 0), (0, 0, 1)]\<rparr>"

definition thirty_iterations :: smoothing_params where
  "thirty_iterations =
     \<lparr>smoothing_iterations = 30, pass_band = 1 / 10, smooth_non_manifold_edges = True,
      smooth_feature_edges = True, smooth_boundary_edges = True\<rparr>"

section \<open>Properties of load_segmentation\<close>

lemma bit_length_bound: "n < 2 ^ k \<Longrightarrow> bit_length n \<le> k"
proof (induction k arbitrary: n)
  case 0
  then show ?case by (simp add: bit_length.simps)
next
  case (Suc k)
  show ?case
  proof (cases "n = 0")
    case True
    then show ?thesis by (simp add: bit_length.simps)
  next
    case False
    from Suc.prems have "n div 2 < 2 ^ k" by simp
    then have "bit_length (n div 2) \<le> k" by (rule Suc.IH)
    with False show ?thesis by (subst bit_length.simps) simp
  qed
qed

lemma bit_length_exact: "2 ^ k \<le> n \<Longrightarrow> n < 2 ^ Suc k \<Longrightarrow> bit_length n = Suc k"
proof (induction k arbitrary: n)
  case 0
  then have "n = 1" by simp
  then show ?case by (simp add: bit_length.simps)
next
  case (Suc k)
  from Suc.prems have "2 ^ k \<le> n div 2" "n div 2 < 2 ^ Suc k" by simp_all
  then have "bit_length (n div 2) = Suc k" by (rule Suc.IH)
  moreover have "0 < (2::nat) ^ Suc k" by simp
  with Suc.prems(1) have "n \<noteq> 0" by linarith
  ultimately show ?case by (subst bit_length.simps) simp
qed

lemma bit_length_2_53: "bit_length 9007199254740992 = 54"
  using bit_length_exact [of 53 9007199254740992] by simp

lemma bit_length_2_53_1: "bit_length 9007199254740993 = 54"
  using bit_length_exact [of 53 9007199254740993] by simp

lemma round_2_53: "round_to_53_bits 9007199254740992 = 9007199254740992"
  by (simp add: round_to_53_bits_def bit_length_2_53)

lemma round_to_53_bits_exact:
  assumes "n \<le> 2 ^ 53"
  shows "round_to_53_bits n = n"
proof (cases "n = 2 ^ 53")
  case True
  then show ?thesis by (simp add: round_2_53)
next
  case False
  with assms have "n < 2 ^ 53" by simp
  then have "bit_length n \<le> 53" by (rule bit_length_bound)
  then show ?thesis by (simp add: round_to_53_bits_def)
qed

lemma int_to_float64_exact:
  assumes "\<bar>n\<bar> \<le> 2 ^ 53"
  shows "int_to_float64 n = Inr (Finite (of_int n))"
proof -
  have le: "nat \<bar>n\<bar> \<le> 2 ^ 53"
    using assms by (simp add: nat_le_iff)
  then have m: "round_to_53_bits (nat \<bar>n\<bar>) = nat \<bar>n\<bar>"
    by (rule round_to_53_bits_exact)
  have "(2::nat) ^ 53 < 2 ^ 1024"
    by (rule power_strict_increasing) simp_all
  with le have small: "\<not> 2 ^ 1024 \<le> nat \<bar>n\<bar>" by linarith
  have "(if n < 0 then - of_nat (nat \<bar>n\<bar>) else of_nat (nat \<bar>n\<bar>)) = (of_int n :: rat)"
    by simp
  then show ?thesis
    using small by (simp add: int_to_float64_def m)
qed

lemma np_equal_Finite: "np_equal v (Finite x) \<longleftrightarrow> v = Finite x"
  by (auto simp: np_equal_def)

lemma binarize_shape: "shape (binarize a x) = shape a"
  by (simp add: binarize_def)

lemma binarize_length: "length (data (binarize a x)) = length (data a)"
  by (simp add: binarize_def)

lemma binarize_nth:
  assumes "i < length (data a)"
  shows "data (binarize a (Finite x)) ! i = (if data a ! i = Finite x then Finite 1 else Finite 0)"
  using assms by (simp add: binarize_def astype_float32_def np_equal_Finite)

lemma load_segmentation_converted:
  assumes "os_path_exists lib p" and "nib_load lib p = Inr img"
    and "int_to_float64 l = Inr x"
  shows "load_segmentation lib p l = Inr (binarize (get_fdata img) x, get_zooms img)"
  using assms by (simp add: load_segmentation_def)

lemma load_segmentation_ok:
  assumes "os_path_exists lib p" and "nib_load lib p = Inr img" and "\<bar>l\<bar> \<le> 2 ^ 53"
  shows "load_segmentation lib p l =
           Inr (binarize (get_fdata img) (Finite (of_int l)), get_zooms img)"
  using assms(1,2) int_to_float64_exact [OF assms(3)] by (rule load_segmentation_converted)

lemma stub_exists: "os_path_exists stub_library nifti_path"
  by (simp add: stub_library_def nifti_path_def)

lemma stub_load: "nib_load stub_library nifti_path = Inr stub_image"
  by (simp add: stub_library_def)

lemma stub_wide_exists: "os_path_exists stub_wide nifti_path"
  by (simp add: stub_wide_def stub_library_def nifti_path_def)

lemma stub_wide_load: "nib_load stub_wide nifti_path = Inr wide_image"
  by (simp add: stub_wide_def)

lemma rounds_to_even_nat: "round_to_53_bits 9007199254740993 = 9007199254740992"
  by (simp add: round_to_53_bits_def bit_length_2_53_1)

lemma rounds_to_even: "int_to_float64 9007199254740993 = Inr (Finite 9007199254740992)"
  by (simp add: int_to_float64_def rounds_to_even_nat)

lemma bit_length_upper: "n < 2 ^ bit_length n"
proof (induction n rule: bit_length.induct)
  case (1 n)
  show ?case
  proof (cases "n = 0")
    case True
    then show ?thesis by simp
  next
    case False
    then have "n div 2 < 2 ^ bit_length (n div 2)" by (rule "1.IH")
    then have "n < 2 * 2 ^ bit_length (n div 2)" by linarith
    with False show ?thesis by (subst bit_length.simps) simp
  qed
qed

lemma bit_length_lower: "n \<noteq> 0 \<Longrightarrow> 2 ^ (bit_length n - 1) \<le> n"
proof (induction n rule: bit_length.induct)
  case (1 n)
  from "1.prems" have bl: "bit_length n = Suc (bit_length (n div 2))"
    by (subst bit_length.simps) simp
  show ?case
  proof (cases "n div 2 = 0")
    case True
    then have "bit_length (n div 2) = 0" by (simp add: bit_length.simps)
    with "1.prems" show ?thesis by (simp add: bl)
  next
    case False
    then have ih: "2 ^ (bit_length (n div 2) - 1) \<le> n div 2"
      using "1.IH" [OF "1.prems"] by simp
    from False have "bit_length (n div 2) = Suc (bit_length (n div 2 div 2))"
      using bit_length.simps [of "n div 2"] by simp
    then have "bit_length (n div 2) = Suc (bit_length (n div 2) - 1)"
      by simp
    then have "(2::nat) ^ bit_length (n div 2) = 2 * 2 ^ (bit_length (n div 2) - 1)"
      by (metis power_Suc)
    also have "\<dots> \<le> 2 * (n div 2)" using ih by simp
    also have "\<dots> \<le> n" by simp
    finally show ?thesis by (simp add: bl)
  qed
qed

lemma round_to_53_bits_lower:
  assumes "2 ^ k \<le> n" and "53 \<le> k"
  shows "2 ^ k \<le> round_to_53_bits n"
proof -
  let ?e = "bit_length n"
  let ?d = "(2::nat) ^ (?e - 53)"
  have "0 < (2::nat) ^ k" by simp
  with assms(1) have pos: "n \<noteq> 0" by linarith
  have "(2::nat) ^ k < 2 ^ ?e"
    using assms(1) bit_length_upper [of n] by (rule le_less_trans)
  then have ke: "k < ?e" by (simp add: power_less_imp_less_exp)
  with assms(2) have big: "\<not> ?e \<le> 53" by simp
  have split: "(2::nat) ^ (?e - 1) = 2 ^ 52 * ?d"
  proof -
    have "?e - 1 = 52 + (?e - 53)" using big by simp
    then show ?thesis by (simp only: power_add)
  qed
  have "2 ^ 52 * ?d \<le> n"
    using bit_length_lower [OF pos] by (simp only: split)
  then have q: "2 ^ 52 \<le> n div ?d"
    by (simp add: less_eq_div_iff_mult_less_eq)
  have "(2::nat) ^ k \<le> 2 ^ (?e - 1)"
    using ke by (intro power_increasing) simp_all
  also have "\<dots> = 2 ^ 52 * ?d" by (rule split)
  also have "\<dots> \<le> (n div ?d) * ?d" using q by (rule mult_le_mono1)
  also have "\<dots> \<le> (if 2 ^ (?e - 53 - 1) < n mod ?d \<or> (n mod ?d = 2 ^ (?e - 53 - 1) \<and> odd (n div ?d))
                      then n div ?d + 1 else n div ?d) * ?d"
    by (intro mult_le_mono1) simp
  also have "\<dots> = round_to_53_bits n"
    using big by (simp add: round_to_53_bits_def Let_def)
  finally show ?thesis .
qed

lemma int_to_float64_overflow:
  assumes "2 ^ 1024 \<le> \<bar>n\<bar>"
  shows "int_to_float64 n = Inl OverflowError"
proof -
  have "(2::nat) ^ 1024 \<le> nat \<bar>n\<bar>"
    using assms by (simp add: le_nat_iff)
  then have "2 ^ 1024 \<le> round_to_53_bits (nat \<bar>n\<bar>)"
    by (rule round_to_53_bits_lower) simp
  then show ?thesis by (simp only: int_to_float64_def Let_def if_True)
qed

lemma too_large: "int_to_float64 (10 ^ 400) = Inl OverflowError"
  by (rule int_to_float64_overflow) simp

text \<open>
  C9, as amended. When the file exists and nibabel loads it, and the target label is an
  integer of magnitude at most \<open>2^53\<close> (which float64 holds exactly),
  \<open>load_segmentation\<close> returns the spacing of the image and an array of the shape of
  the image's data that holds 1 at every voxel whose value equals the target label and
  0 at every other voxel.
\<close>

theorem load_segmentation_indicator:
  assumes "os_path_exists lib p" and "nib_load lib p = Inr img" and "\<bar>l\<bar> \<le> 2 ^ 53"
  shows "\<exists>lf. load_segmentation lib p l = Inr (lf, get_zooms img)
           \<and> shape lf = shape (get_fdata img)
           \<and> length (data lf) = length (data (get_fdata img))
           \<and> (\<forall>i < length (data (get_fdata img)).
                 data lf ! i =
                   (if data (get_fdata img) ! i = Finite (of_int l) then Finite 1 else Finite 0))"
proof -
  let ?lf = "binarize (get_fdata img) (Finite (of_int l))"
  have "load_segmentation lib p l = Inr (?lf, get_zooms img)"
    using assms by (rule load_segmentation_ok)
  moreover have "shape ?lf = shape (get_fdata img)"
    by (rule binarize_shape)
  moreover have "length (data ?lf) = length (data (get_fdata img))"
    by (rule binarize_length)
  moreover have "\<forall>i < length (data (get_fdata img)).
      data ?lf ! i = (if data (get_fdata img) ! i = Finite (of_int l) then Finite 1 else Finite 0)"
    by (simp add: binarize_nth)
  ultimately show ?thesis by blast
qed

theorem load_segmentation_indicator_witness:
  "os_path_exists stub_library nifti_path \<and> nib_load stub_library nifti_path = Inr stub_image
   \<and> (\<exists>lf. load_segmentation stub_library nifti_path 1 = Inr (lf, get_zooms stub_image)
           \<and> shape lf = [2, 1, 2] \<and> length (data lf) = 4
           \<and> data lf ! 0 = Finite 0 \<and> data lf ! 1 = Finite 1
           \<and> data lf ! 2 = Finite 0 \<and> data lf ! 3 = Finite 0)"
proof -
  have small: "\<bar>1::int\<bar> \<le> 2 ^ 53" by simp
  obtain lf where lf: "load_segmentation stub_library nifti_path 1 = Inr (lf, get_zooms stub_image)"
      "shape lf = shape (get_fdata stub_image)"
      "length (data lf) = length (data (get_fdata stub_image))"
      "\<forall>i < length (data (get_fdata stub_image)).
         data lf ! i =
           (if data (get_fdata stub_image) ! i = Finite (of_int 1) then Finite 1 else Finite 0)"
    using load_segmentation_indicator [OF stub_exists stub_load small] by blast
  have len: "length (data (get_fdata stub_image)) = 4"
    by (simp add: stub_image_def)
  have "data lf ! 0 = Finite 0" "data lf ! 1 = Finite 1" "data lf ! 2 = Finite 0"
       "data lf ! 3 = Finite 0"
    using lf(4) len by (simp_all add: stub_image_def)
  moreover have "shape lf = [2, 1, 2]" "length (data lf) = 4"
    using lf(2,3) by (simp_all add: stub_image_def)
  ultimately show ?thesis
    using lf(1) stub_exists stub_load by blast
qed

text \<open>
  C9 as stated fails for a label that float64 does not hold: \<open>2^53 + 1\<close> is rounded to
  \<open>2^53\<close> before the comparison, so the voxel of value \<open>2^53\<close>, which does not
  equal the label, gets 1.
\<close>

theorem load_segmentation_indicator_counterexample:
  "data (get_fdata wide_image) = [Finite 9007199254740992, Finite 1]
   \<and> Finite 9007199254740992 \<noteq> Finite (of_int 9007199254740993)
   \<and> load_segmentation stub_wide nifti_path 9007199254740993 =
       Inr (\<lparr>shape = [2, 1, 1], data = [Finite 1, Finite 0]\<rparr>, [Finite 1, Finite 1, Finite 1])"
proof -
  have "load_segmentation stub_wide nifti_path 9007199254740993 =
      Inr (binarize (get_fdata wide_image) (Finite 9007199254740992), get_zooms wide_image)"
    using stub_wide_exists stub_wide_load rounds_to_even by (rule load_segmentation_converted)
  then show ?thesis
    by (simp add: wide_image_def binarize_def astype_float32_def np_equal_def)
qed

text \<open>
  C10, as amended. When the file exists and loads, the target label is an integer of
  magnitude at most \<open>2^53\<close>, and no voxel equals it, \<open>load_segmentation\<close> raises
  nothing and returns the all-zero array of the shape of the image's data.
\<close>

theorem load_segmentation_absent_label:
  assumes "os_path_exists lib p" and "nib_load lib p = Inr img" and "\<bar>l\<bar> \<le> 2 ^ 53"
    and "\<forall>v \<in> set (data (get_fdata img)). v \<noteq> Finite (of_int l)"
  shows "load_segmentation lib p l =
           Inr (\<lparr>shape = shape (get_fdata img),
                 data = replicate (length (data (get_fdata img))) (Finite 0)\<rparr>,
                get_zooms img)"
proof -
  have "map (\<lambda>v. astype_float32 (np_equal v (Finite (of_int l)))) (data (get_fdata img)) =
        map (\<lambda>v. Finite 0) (data (get_fdata img))"
    using assms(4) by (intro map_cong) (simp_all add: astype_float32_def np_equal_Finite)
  then have "binarize (get_fdata img) (Finite (of_int l)) =
      \<lparr>shape = shape (get_fdata img),
       data = replicate (length (data (get_fdata img))) (Finite 0)\<rparr>"
    by (simp add: binarize_def map_replicate_const)
  then show ?thesis
    using load_segmentation_ok [OF assms(1,2,3)] by simp
qed

theorem load_segmentation_absent_label_witness:
  "os_path_exists stub_library nifti_path \<and> nib_load stub_library nifti_path = Inr stub_image
   \<and> data (get_fdata stub_image) = [Finite 0, Finite 1, Finite 2, NaN]
   \<and> load_segmentation stub_library nifti_path 7 =
       Inr (\<lparr>shape = [2, 1, 2], data = [Finite 0, Finite 0, Finite 0, Finite 0]\<rparr>,
            [Finite 1, Finite 1, Finite 1])"
proof -
  have small: "\<bar>7::int\<bar> \<le> 2 ^ 53" by simp
  have absent: "\<forall>v \<in> set (data (get_fdata stub_image)). v \<noteq> Finite (of_int 7)"
    by (simp add: stub_image_def)
  show ?thesis
    using load_segmentation_absent_label [OF stub_exists stub_load small absent] absent
      stub_exists stub_load
    by (simp add: stub_image_def numeral_eq_Suc)
qed

text \<open>
  C10 as stated fails in two ways. No voxel of the image equals \<open>2^53 + 1\<close>, yet the
  array returned for that label is not all zero; and for the label \<open>10^400\<close>, which no
  voxel equals either, the conversion raises and nothing is returned.
\<close>

theorem load_segmentation_absent_label_counterexample:
  "Finite (of_int 9007199254740993) \<notin> set (data (get_fdata wide_image))
   \<and> load_segmentation stub_wide nifti_path 9007199254740993 =
       Inr (\<lparr>shape = [2, 1, 1], data = [Finite 1, Finite 0]\<rparr>, [Finite 1, Finite 1, Finite 1])
   \<and> load_segmentation stub_wide nifti_path (10 ^ 400) = Inl OverflowError"
proof -
  have "load_segmentation stub_wide nifti_path 9007199254740993 =
      Inr (binarize (get_fdata wide_image) (Finite 9007199254740992), get_zooms wide_image)"
    using stub_wide_exists stub_wide_load rounds_to_even by (rule load_segmentation_converted)
  moreover have "load_segmentation stub_wide nifti_path (10 ^ 400) = Inl OverflowError"
    using stub_wide_exists stub_wide_load too_large by (simp add: load_segmentation_def)
  ultimately show ?thesis
    by (simp add: wide_image_def binarize_def astype_float32_def np_equal_def)
qed

section \<open>Properties of create_smooth_mesh and of the main block\<close>

lemma faces_formatted_Nil: "faces_formatted [] = []"
  by (simp add: faces_formatted_def)

lemma create_smooth_mesh_fallback:
  assumes "pv_PolyData lib verts (faces_formatted faces) = Inr mesh0"
    and "pv_clean lib mesh0 = (mesh1, None)"
    and "pv_connectivity lib ''largest'' mesh1 = Inr clean_mesh"
    and "vtk_windowed_sinc lib smoother_settings clean_mesh = Inl e"
  shows "create_smooth_mesh lib verts faces out =
           (Inr clean_mesh,
            out @ [PrintCreatingMesh, PrintVertsBefore (n_points lib clean_mesh),
                   PrintFacesBefore (n_cells lib clean_mesh), PrintSmoothingError e])"
  using assms by (simp add: create_smooth_mesh_def smoothing_handler_def Let_def)

lemma main_after_smoothing:
  assumes "load_segmentation lib nifti_path 1 = Inr (seg, spacing)"
    and "medpy_anisotropic_diffusion lib seg 5 50 (1 / 10) spacing 1 = Inr filtered"
    and "measure_marching_cubes lib filtered (1 / 2) spacing 1 = Inr (verts, faces, normals, vals)"
    and "create_smooth_mesh lib verts faces
           (out @ [PrintLoaded, PrintFiltered, PrintVertsGenerated (length verts),
                   PrintFacesGenerated (length faces), PrintMeshGenerated])
         = (Inr mesh, out')"
    and "plotter_show lib mesh = None"
    and "\<not> os_path_exists lib (os_path_dirname lib output_stl_path)
           \<longrightarrow> os_makedirs lib (os_path_dirname lib output_stl_path) = None"
    and "mesh_save lib mesh output_stl_path = None"
  shows "main lib out =
           out' @ [PrintSmoothed, PlotterShown mesh]
             @ (if os_path_exists lib (os_path_dirname lib output_stl_path) then []
                else [MadeDirs (os_path_dirname lib output_stl_path)])
             @ [MeshSaved mesh output_stl_path, PrintSaved output_stl_path]"
  using assms
  by (simp add: main_def main_try_def generate_mesh_def visualize_mesh_advanced_def
      save_mesh_def Let_def)

text \<open>
  C5. When the mesh is built, cleaned and reduced to its largest component, and the
  smoothing filter then raises, \<open>create_smooth_mesh\<close> raises nothing: it returns the
  unsmoothed mesh as it was handed to the filter and prints the error. The script goes
  on with that mesh: when the stages before and after it succeed, the run ends with the
  unsmoothed mesh shown and saved, and no process error is printed.
\<close>

theorem smoothing_failure_falls_back:
  assumes "pv_PolyData lib verts (faces_formatted faces) = Inr mesh0"
    and "pv_clean lib mesh0 = (mesh1, None)"
    and "pv_connectivity lib ''largest'' mesh1 = Inr clean_mesh"
    and "vtk_windowed_sinc lib smoother_settings clean_mesh = Inl e"
  shows "(\<forall>out. create_smooth_mesh lib verts faces out =
            (Inr clean_mesh,
             out @ [PrintCreatingMesh, PrintVertsBefore (n_points lib clean_mesh),
                    PrintFacesBefore (n_cells lib clean_mesh), PrintSmoothingError e]))
       \<and> (load_segmentation lib nifti_path 1 = Inr (seg, spacing)
          \<and> medpy_anisotropic_diffusion lib seg 5 50 (1 / 10) spacing 1 = Inr filtered
          \<and> measure_marching_cubes lib filtered (1 / 2) spacing 1
              = Inr (verts, faces, normals, vals)
          \<and> plotter_show lib clean_mesh = None
          \<and> (\<not> os_path_exists lib (os_path_dirname lib output_stl_path)
                \<longrightarrow> os_makedirs lib (os_path_dirname lib output_stl_path) = None)
          \<and> mesh_save lib clean_mesh output_stl_path = None
          \<longrightarrow> main lib [] =
                [PrintLoaded, PrintFiltered, PrintVertsGenerated (length verts),
                 PrintFacesGenerated (length faces), PrintMeshGenerated,
                 PrintCreatingMesh, PrintVertsBefore (n_points lib clean_mesh),
                 PrintFacesBefore (n_cells lib clean_mesh), PrintSmoothingError e,
                 PrintSmoothed, PlotterShown clean_mesh]
                @ (if os_path_exists lib (os_path_dirname lib output_stl_path) then []
                   else [MadeDirs (os_path_dirname lib output_stl_path)])
                @ [MeshSaved clean_mesh output_stl_path, PrintSaved output_stl_path])"
proof (intro conjI allI impI)
  fix out
  show "create_smooth_mesh lib verts faces out =
          (Inr clean_mesh,
           out @ [PrintCreatingMesh, PrintVertsBefore (n_points lib clean_mesh),
                  PrintFacesBefore (n_cells lib clean_mesh), PrintSmoothingError e])"
    using assms by (rule create_smooth_mesh_fallback)
next
  assume rest: "load_segmentation lib nifti_path 1 = Inr (seg, spacing)
          \<and> medpy_anisotropic_diffusion lib seg 5 50 (1 / 10) spacing 1 = Inr filtered
          \<and> measure_marching_cubes lib filtered (1 / 2) spacing 1
              = Inr (verts, faces, normals, vals)
          \<and> plotter_show lib clean_mesh = None
          \<and> (\<not> os_path_exists lib (os_path_dirname lib output_stl_path)
                \<longrightarrow> os_makedirs lib (os_path_dirname lib output_stl_path) = None)
          \<and> mesh_save lib clean_mesh output_stl_path = None"
  let ?out0 = "[] @ [PrintLoaded, PrintFiltered, PrintVertsGenerated (length verts),
                   PrintFacesGenerated (length faces), PrintMeshGenerated]"
  have smooth: "create_smooth_mesh lib verts faces ?out0 =
      (Inr clean_mesh,
       ?out0 @ [PrintCreatingMesh, PrintVertsBefore (n_points lib clean_mesh),
                PrintFacesBefore (n_cells lib clean_mesh), PrintSmoothingError e])"
    using assms by (rule create_smooth_mesh_fallback)
  show "main lib [] =
          [PrintLoaded, PrintFiltered, PrintVertsGenerated (length verts),
           PrintFacesGenerated (length faces), PrintMeshGenerated,
           PrintCreatingMesh, PrintVertsBefore (n_points lib clean_mesh),
           PrintFacesBefore (n_cells lib clean_mesh), PrintSmoothingError e,
           PrintSmoothed, PlotterShown clean_mesh]
          @ (if os_path_exists lib (os_path_dirname lib output_stl_path) then []
             else [MadeDirs (os_path_dirname lib output_stl_path)])
          @ [MeshSaved clean_mesh output_stl_path, PrintSaved output_stl_path]"
    using main_after_smoothing [of lib seg spacing filtered verts faces normals vals "[]",
        OF _ _ _ smooth] rest
    by simp
qed

lemma stub_dirname: "os_path_dirname stub_smoothing_fails output_stl_path = ''mesh_output''"
  by (simp add: stub_smoothing_fails_def stub_library_def output_stl_path_def)

lemma stub_fails_load:
  "load_segmentation stub_smoothing_fails nifti_path 1 =
     Inr (binarize (get_fdata stub_image) (Finite 1), get_zooms stub_image)"
  using load_segmentation_ok [of stub_smoothing_fails nifti_path stub_image 1]
  by (simp add: stub_smoothing_fails_def stub_library_def nifti_path_def)

theorem smoothing_failure_falls_back_witness:
  "create_smooth_mesh stub_smoothing_fails [stub_origin, stub_origin, stub_origin] [(0, 1, 2)] []
     = (Inr \<lparr>points = [stub_origin, stub_origin, stub_origin], cells = [3, 0, 1, 2]\<rparr>,
        [PrintCreatingMesh, PrintVertsBefore 3, PrintFacesBefore 1,
         PrintSmoothingError topology_failure])
   \<and> main stub_smoothing_fails [] =
       [PrintLoaded, PrintFiltered, PrintVertsGenerated 3, PrintFacesGenerated 1,
        PrintMeshGenerated, PrintCreatingMesh, PrintVertsBefore 3, PrintFacesBefore 1,
        PrintSmoothingError topology_failure, PrintSmoothed,
        PlotterShown \<lparr>points = [stub_origin, stub_origin, stub_origin], cells = [3, 0, 1, 2]\<rparr>,
        MadeDirs ''mesh_output'',
        MeshSaved \<lparr>points = [stub_origin, stub_origin, stub_origin], cells = [3, 0, 1, 2]\<rparr>
          output_stl_path,
        PrintSaved output_stl_path]"
proof -
  let ?verts = "[stub_origin, stub_origin, stub_origin]"
  let ?faces = "[(0, 1, 2)] :: face list"
  let ?m = "\<lparr>points = ?verts, cells = [3, 0, 1, 2]\<rparr>"
  let ?seg = "binarize (get_fdata stub_image) (Finite 1)"
  let ?lib = stub_smoothing_fails
  have build: "pv_PolyData ?lib ?verts (faces_formatted ?faces) = Inr ?m"
    by (simp add: stub_smoothing_fails_def stub_library_def faces_formatted_def)
  have clean: "pv_clean ?lib ?m = (?m, None)"
    by (simp add: stub_smoothing_fails_def stub_library_def)
  have largest: "pv_connectivity ?lib ''largest'' ?m = Inr ?m"
    by (simp add: stub_smoothing_fails_def stub_library_def)
  have fails: "vtk_windowed_sinc ?lib smoother_settings ?m = Inl topology_failure"
    by (simp add: stub_smoothing_fails_def)
  have filtered: "medpy_anisotropic_diffusion ?lib ?seg 5 50 (1 / 10) (get_zooms stub_image) 1
      = Inr ?seg"
    by (simp add: stub_smoothing_fails_def stub_library_def)
  have extracted: "measure_marching_cubes ?lib ?seg (1 / 2) (get_zooms stub_image) 1
      = Inr (?verts, ?faces, ?verts, [Finite 1, Finite 1, Finite 1])"
    by (simp add: stub_smoothing_fails_def stub_library_def)
  have shown: "plotter_show ?lib ?m = None"
    by (simp add: stub_smoothing_fails_def stub_library_def)
  have no_dir: "\<not> os_path_exists ?lib ''mesh_output''"
    by (simp add: stub_smoothing_fails_def stub_library_def)
  have made: "os_makedirs ?lib ''mesh_output'' = None"
    by (simp add: stub_smoothing_fails_def stub_library_def)
  have saved: "mesh_save ?lib ?m output_stl_path = None"
    by (simp add: stub_smoothing_fails_def stub_library_def)
  have counts: "n_points ?lib ?m = 3" "n_cells ?lib ?m = 1"
    by (simp_all add: stub_smoothing_fails_def stub_library_def)
  show ?thesis
    using smoothing_failure_falls_back [OF build clean largest fails,
        of ?seg "get_zooms stub_image" ?seg ?verts "[Finite 1, Finite 1, Finite 1]"]
      stub_fails_load filtered extracted shown no_dir made saved
    by (simp add: stub_dirname counts)
qed

text \<open>
  C2, as amended. On a soup with zero triangles from which the mesh constructor builds a
  mesh, \<open>create_smooth_mesh\<close> has no check of its own, raises nothing and signals no
  empty-mesh error: it hands the vertices and an empty face array to the constructor and
  goes on as for any other input. It returns the smoothed mesh when cleaning, extraction
  of the largest component and smoothing succeed; when one of them raises, it prints
  that error and returns the mesh bound at that point: the constructed mesh as cleaning
  left it when cleaning or extraction raised, the extracted mesh when smoothing raised.
\<close>

theorem create_smooth_mesh_zero_triangles:
  assumes "pv_PolyData lib verts [] = Inr mesh0"
  shows "create_smooth_mesh lib verts [] out =
    (case pv_clean lib mesh0 of
       (mesh1, Some e) \<Rightarrow> (Inr mesh1, out @ [PrintCreatingMesh, PrintSmoothingError e])
     | (mesh1, None) \<Rightarrow>
         (case pv_connectivity lib ''largest'' mesh1 of
            Inl e \<Rightarrow> (Inr mesh1, out @ [PrintCreatingMesh, PrintSmoothingError e])
          | Inr mesh \<Rightarrow>
              (case vtk_windowed_sinc lib smoother_settings mesh of
                 Inl e \<Rightarrow>
                   (Inr mesh,
                    out @ [PrintCreatingMesh, PrintVertsBefore (n_points lib mesh),
                           PrintFacesBefore (n_cells lib mesh), PrintSmoothingError e])
               | Inr smooth_mesh \<Rightarrow>
                   (Inr smooth_mesh,
                    out @ [PrintCreatingMesh, PrintVertsBefore (n_points lib mesh),
                           PrintFacesBefore (n_cells lib mesh),
                           PrintVertsAfter (n_points lib smooth_mesh),
                           PrintFacesAfter (n_cells lib smooth_mesh)]))))"
proof -
  have built: "pv_PolyData lib verts (faces_formatted []) = Inr mesh0"
    using assms by (simp add: faces_formatted_Nil)
  show ?thesis
    by (simp add: create_smooth_mesh_def smoothing_handler_def built Let_def
        split: sum.splits prod.splits option.splits)
qed

theorem create_smooth_mesh_zero_triangles_witness:
  "create_smooth_mesh stub_smoothing_fails [] [] [] =
     (Inr \<lparr>points = [], cells = []\<rparr>,
      [PrintCreatingMesh, PrintVertsBefore 0, PrintFacesBefore 0,
       PrintSmoothingError topology_failure])"
proof -
  have "pv_PolyData stub_smoothing_fails [] [] = Inr \<lparr>points = [], cells = []\<rparr>"
    by (simp add: stub_smoothing_fails_def stub_library_def)
  from create_smooth_mesh_zero_triangles [OF this, of "[]"] show ?thesis
    by (simp add: stub_smoothing_fails_def stub_library_def)
qed

text \<open>
  C2 as stated fails: with a library whose calls all succeed, the empty soup comes back
  as a mesh and nothing is raised; with a library whose mesh constructor raises, the
  error that leaves the function is the unbound variable, not an empty-mesh error.
\<close>

theorem create_smooth_mesh_empty_counterexample:
  "create_smooth_mesh stub_library [] [] []
     = (Inr \<lparr>points = [], cells = []\<rparr>,
        [PrintCreatingMesh, PrintVertsBefore 0, PrintFacesBefore 0,
         PrintVertsAfter 0, PrintFacesAfter 0])
   \<and> create_smooth_mesh stub_no_mesh [] [] []
     = (Inl (UnboundLocalError ''mesh''),
        [PrintCreatingMesh, PrintSmoothingError (LibraryError ''ValueError'' ''empty mesh'')])"
  by (simp add: create_smooth_mesh_def smoothing_handler_def faces_formatted_def
      stub_no_mesh_def stub_library_def Let_def)

section \<open>Properties of SurfaceSmoother as the spec describes it\<close>

lemma move_all_length: "move_all f ts fixed pts js = Inr qs \<Longrightarrow> length qs = length js"
  by (induction js arbitrary: qs) (auto split: sum.splits)

lemma smoothing_pass_length:
  "smoothing_pass f ts fixed pts = Inr qs \<Longrightarrow> length qs = length pts"
  by (auto simp: smoothing_pass_def dest: move_all_length)

lemma smoothing_loop_length:
  "smoothing_loop n lam mu ts fixed pts = Inr qs \<Longrightarrow> length qs = length pts"
proof (induction n arbitrary: pts)
  case 0
  then show ?case by simp
next
  case (Suc n)
  then show ?case
    by (auto split: sum.splits dest!: smoothing_pass_length)
qed

text \<open>
  C3. Whatever the parameters, the mesh SurfaceSmoother returns is its input with the
  vertex positions replaced by as many positions: the triangles (and the normals) are
  those of the input, and the vertex count is the same.
\<close>

theorem SurfaceSmoother_keeps_topology:
  "\<exists>pts. fst (SurfaceSmoother factors sharp ps m) = m\<lparr>mesh_vertices := pts\<rparr>
         \<and> length pts = length (mesh_vertices m)
         \<and> mesh_triangles (fst (SurfaceSmoother factors sharp ps m)) = mesh_triangles m"
proof (cases "smoothing_loop (smoothing_iterations ps) (fst (factors (pass_band ps)))
                (snd (factors (pass_band ps))) (mesh_triangles m) (excluded sharp ps m)
                (map (normalize_point (frame (mesh_vertices m))) (mesh_vertices m))")
  case (Inl e)
  then have same: "fst (SurfaceSmoother factors sharp ps m) = m"
    by (simp add: SurfaceSmoother_def Let_def case_prod_beta)
  then have "fst (SurfaceSmoother factors sharp ps m) = m\<lparr>mesh_vertices := mesh_vertices m\<rparr>"
    by simp
  then show ?thesis
    using same by (intro exI [of _ "mesh_vertices m"]) simp
next
  case (Inr pts)
  then have len: "length pts = length (mesh_vertices m)"
    by (auto dest: smoothing_loop_length)
  from Inr have "fst (SurfaceSmoother factors sharp ps m) =
      m\<lparr>mesh_vertices := map (denormalize_point (frame (mesh_vertices m))) pts\<rparr>"
    by (simp add: SurfaceSmoother_def Let_def case_prod_beta)
  with len show ?thesis
    by (intro exI [of _ "map (denormalize_point (frame (mesh_vertices m))) pts"]) simp
qed

theorem SurfaceSmoother_keeps_topology_witness:
  "\<exists>pts. fst (SurfaceSmoother (\<lambda>pb. (1 / 2, - 10 / 19)) (\<lambda>m e. False) thirty_iterations
               tetrahedron)
           = tetrahedron\<lparr>mesh_vertices := pts\<rparr>
         \<and> length pts = 4
         \<and> mesh_triangles
              (fst (SurfaceSmoother (\<lambda>pb. (1 / 2, - 10 / 19)) (\<lambda>m e. False) thirty_iterations
                      tetrahedron))
           = [(0, 1, 2), (0, 1, 3), (0, 2, 3), (1, 2, 3)]"
proof -
  have "length (mesh_vertices tetrahedron) = 4"
    and "mesh_triangles tetrahedron = [(0, 1, 2), (0, 1, 3), (0, 2, 3), (1, 2, 3)]"
    by (simp_all add: tetrahedron_def)
  then show ?thesis
    using SurfaceSmoother_keeps_topology
      [of "\<lambda>pb. (1 / 2, - 10 / 19)" "\<lambda>m e. False" thirty_iterations tetrahedron]
    by simp
qed

end
